theory Spec2Isabelle
  imports Complex_Main "HOL-Library.Word" "HOL-Library.AList" "HOL-Library.Char_ord"
    "HOL-Library.List_Lexorder"
begin

section \<open>Conventions of the embedding\<close>

text \<open>
  Go strings are byte sequences and are modelled as \<^typ>\<open>string\<close> (a list of 8-bit
  characters).  A \<open>float64\<close> is modelled as a \<^typ>\<open>real\<close>, that is with exact
  arithmetic.  A Go \<open>map[K]V\<close> is an association list with distinct keys; reading a
  missing key of a \<open>map[K]bool\<close> gives \<open>false\<close>.  An error value is its message.
\<close>

type_synonym error = string

definition lookup_bool :: "('k \<times> bool) list \<Rightarrow> 'k \<Rightarrow> bool" where
  "lookup_bool m k = (case map_of m k of None \<Rightarrow> False | Some b \<Rightarrow> b)"

subsection \<open>The standard library's clock\<close>

text \<open>
  A \<open>time.Time\<close> is an instant, modelled as the number of nanoseconds since the Unix
  epoch; \<open>t.UTC()\<close> does not change the instant.  \<open>Hour\<close>, \<open>Minute\<close> and
  \<open>Weekday\<close> read the instant in UTC (1 January 1970 was a Thursday, weekday 4).
  A \<open>time.Duration\<close> is a number of nanoseconds.
\<close>

type_synonym Time = int
type_synonym Duration = int

definition Hour :: "Time \<Rightarrow> int" where
  "Hour t = (t div 3600000000000) mod 24"

definition Minute :: "Time \<Rightarrow> int" where
  "Minute t = (t div 60000000000) mod 60"

definition Weekday :: "Time \<Rightarrow> int" where
  "Weekday t = (t div 86400000000000 + 4) mod 7"

definition Sub :: "Time \<Rightarrow> Time \<Rightarrow> Duration" where
  "Sub t u = t - u"

definition Seconds :: "Duration \<Rightarrow> real" where
  "Seconds d = real_of_int d / 1000000000"

section \<open>Time windows\<close>

record TimeWindow =
  StartHour :: int
  StartMinute :: int
  EndHour :: int
  EndMinute :: int
  Days :: "(int \<times> bool) list"

definition IsActive :: "TimeWindow \<Rightarrow> Time \<Rightarrow> bool" where
  "IsActive tw t =
     (if length (Days tw) > 0 \<and> \<not> lookup_bool (Days tw) (Weekday t) then False
      else
        let currentMinutes = Hour t * 60 + Minute t;
            startMinutes = StartHour tw * 60 + StartMinute tw;
            endMinutes = EndHour tw * 60 + EndMinute tw
        in if startMinutes \<le> endMinutes
           then currentMinutes \<ge> startMinutes \<and> currentMinutes < endMinutes
           else currentMinutes \<ge> startMinutes \<or> currentMinutes < endMinutes)"

section \<open>Threshold conditions\<close>

record ThresholdCondition =
  Operator :: string
  Value :: real

definition Evaluate :: "ThresholdCondition \<Rightarrow> real \<Rightarrow> bool" where
  "Evaluate c v =
     (if Operator c = ''>'' then v > Value c
      else if Operator c = ''<'' then v < Value c
      else if Operator c = ''>='' then v \<ge> Value c
      else if Operator c = ''<='' then v \<le> Value c
      else if Operator c = ''=='' then v = Value c
      else False)"

subsection \<open>The string functions of the standard library that the parser uses\<close>

text \<open>
  \<open>TrimSpace\<close> removes the white space of ASCII at both ends; the white space beyond
  ASCII that Go removes as well is not modelled.
\<close>

definition isSpace :: "char \<Rightarrow> bool" where
  "isSpace c = (c = CHR '' '' \<or> c = CHR 0x09 \<or> c = CHR 0x0A \<or> c = CHR 0x0B
                \<or> c = CHR 0x0C \<or> c = CHR 0x0D)"

definition TrimSpace :: "string \<Rightarrow> string" where
  "TrimSpace s = rev (dropWhile isSpace (rev (dropWhile isSpace s)))"

definition HasPrefix :: "string \<Rightarrow> string \<Rightarrow> bool" where
  "HasPrefix s p = (take (length p) s = p)"

definition TrimPrefix :: "string \<Rightarrow> string \<Rightarrow> string" where
  "TrimPrefix s p = (if HasPrefix s p then drop (length p) s else s)"

definition HasSuffix :: "string \<Rightarrow> string \<Rightarrow> bool" where
  "HasSuffix s x = (length x \<le> length s \<and> drop (length s - length x) s = x)"

definition CutSuffix :: "string \<Rightarrow> string \<Rightarrow> string \<times> bool" where
  "CutSuffix s x = (if HasSuffix s x then (take (length s - length x) s, True) else (s, False))"

subsection \<open>The float parser\<close>

text \<open>
  The loop of \<open>parseFloatInternal\<close> ranges over the runes of the string with the byte
  index of each.  A byte of a multi-byte rune is neither \<open>-\<close>, \<open>.\<close> nor a digit, so
  ranging over the bytes reaches the same state.
\<close>

record pf_state =
  pf_result :: real
  pf_decimal :: real
  pf_inDecimal :: bool
  pf_negative :: bool
  pf_n :: int

definition isDigit :: "char \<Rightarrow> bool" where
  "isDigit c = (CHR ''0'' \<le> c \<and> c \<le> CHR ''9'')"

definition pf_step :: "nat \<Rightarrow> char \<Rightarrow> pf_state \<Rightarrow> pf_state" where
  "pf_step i c st =
     (if c = CHR ''-'' \<and> i = 0 then st\<lparr>pf_negative := True\<rparr>
      else if c = CHR ''.'' then st\<lparr>pf_inDecimal := True\<rparr>
      else if isDigit c then
        (let digit = real (of_char c - (48::nat)) in
         if pf_inDecimal st
         then st\<lparr>pf_decimal := pf_decimal st * 10,
                 pf_result := pf_result st + digit / (pf_decimal st * 10),
                 pf_n := pf_n st + 1\<rparr>
         else st\<lparr>pf_result := pf_result st * 10 + digit, pf_n := pf_n st + 1\<rparr>)
      else st)"

fun pf_loop :: "nat \<Rightarrow> string \<Rightarrow> pf_state \<Rightarrow> pf_state" where
  "pf_loop i [] st = st"
| "pf_loop i (c # cs) st = pf_loop (Suc i) cs (pf_step i c st)"

definition parseFloatInternal :: "string \<Rightarrow> error + (bool \<times> real \<times> int)" where
  "parseFloatInternal s =
     (let st = pf_loop 0 s \<lparr>pf_result = 0, pf_decimal = 1, pf_inDecimal = False,
                             pf_negative = False, pf_n = 0\<rparr>;
          r = (if pf_negative st then - pf_result st else pf_result st)
      in Inr (True, r, pf_n st))"

definition parseFloat :: "string \<Rightarrow> error + (int \<times> real)" where
  "parseFloat s =
     (case parseFloatInternal s of
        Inl err \<Rightarrow> Inl err
      | Inr (ok, v, n) \<Rightarrow> Inr (n, v))"

definition ParseThresholdCondition :: "string \<Rightarrow> error + ThresholdCondition" where
  "ParseThresholdCondition s0 =
     (let s = TrimSpace s0;
          (operator, valueStr0) =
            (if HasPrefix s ''>='' then (''>='', TrimPrefix s ''>='')
             else if HasPrefix s ''<='' then (''<='', TrimPrefix s ''<='')
             else if HasPrefix s ''>'' then (''>'', TrimPrefix s ''>'')
             else if HasPrefix s ''<'' then (''<'', TrimPrefix s ''<'')
             else if HasPrefix s ''=='' then (''=='', TrimPrefix s ''=='')
             else (''=='', s));
          valueStr = TrimSpace valueStr0
      in if snd (CutSuffix valueStr ''ms'') then
           (case parseFloat (fst (CutSuffix valueStr ''ms'')) of
              Inl err \<Rightarrow> Inl err
            | Inr (n, v) \<Rightarrow> Inr \<lparr>Operator = operator, Value = v / 1000\<rparr>)
         else if snd (CutSuffix valueStr ''s'') then
           (case parseFloat (fst (CutSuffix valueStr ''s'')) of
              Inl err \<Rightarrow> Inl err
            | Inr (n, v) \<Rightarrow> Inr \<lparr>Operator = operator, Value = v\<rparr>)
         else
           (case parseFloat valueStr of
              Inl err \<Rightarrow> Inl err
            | Inr (n, v) \<Rightarrow> Inr \<lparr>Operator = operator, Value = v\<rparr>))"

section \<open>Admission of TermitePool resources\<close>







subsection \<open>Formatting\<close>






subsection \<open>The validators\<close>


















section \<open>The reranking cache key\<close>

text \<open>
  The hash is \<open>xxhash\<close>, a library outside the repository.  Its streaming digest is
  modelled by the bytes written to it so far, and \<open>Sum64\<close> by a parameter \<open>sum64\<close>,
  the 64-bit hash of those bytes.
\<close>

type_synonym Digest = string

definition New :: Digest where
  "New = []"

definition WriteString :: "Digest \<Rightarrow> string \<Rightarrow> Digest" where
  "WriteString h s = h @ s"

definition Write :: "Digest \<Rightarrow> string \<Rightarrow> Digest" where
  "Write h bs = h @ bs"

text \<open>The conversion \<open>byte(i)\<close> keeps the low eight bits.\<close>

definition byte :: "nat \<Rightarrow> char" where
  "byte i = char_of (i mod 256)"

definition PutUint64 :: "64 word \<Rightarrow> string" where
  "PutUint64 v = [byte (unat (drop_bit 56 v)), byte (unat (drop_bit 48 v)),
     byte (unat (drop_bit 40 v)), byte (unat (drop_bit 32 v)), byte (unat (drop_bit 24 v)),
     byte (unat (drop_bit 16 v)), byte (unat (drop_bit 8 v)), byte (unat v)]"

fun write_prompts :: "nat \<Rightarrow> string list \<Rightarrow> Digest \<Rightarrow> Digest" where
  "write_prompts i [] h = h"
| "write_prompts i (prompt # prompts) h =
     write_prompts (Suc i) prompts
       (let h = WriteString h ''p'';
            h = Write h [byte (i div 256), byte i];
            h = WriteString h '':'';
            h = WriteString h prompt
        in WriteString h ''|'')"

definition cacheKey_written :: "string \<Rightarrow> string \<Rightarrow> string list \<Rightarrow> Digest" where
  "cacheKey_written model query prompts =
     (let h = New;
          h = WriteString h model;
          h = WriteString h ''|'';
          h = WriteString h ''q:'';
          h = WriteString h query;
          h = WriteString h ''|''
      in write_prompts 0 prompts h)"

definition cacheKey :: "(string \<Rightarrow> 64 word) \<Rightarrow> string \<Rightarrow> string \<Rightarrow> string list \<Rightarrow> string" where
  "cacheKey sum64 model query prompts = PutUint64 (sum64 (cacheKey_written model query prompts))"

text \<open>
  The fingerprint as the specification words it: the model, \<open>|\<close>, \<open>q:\<close>, the query,
  \<open>|\<close>, then for each prompt its index in big-endian form, \<open>:\<close>, the prompt and
  \<open>|\<close>.  The index is taken as two bytes, as in the code.
\<close>

definition spec_prompt_entry :: "nat \<times> string \<Rightarrow> string" where
  "spec_prompt_entry ip = [byte (fst ip div 256), byte (fst ip)] @ '':'' @ snd ip @ ''|''"

definition spec_fingerprint :: "string \<Rightarrow> string \<Rightarrow> string list \<Rightarrow> string" where
  "spec_fingerprint model query prompts =
     model @ ''|'' @ ''q:'' @ query @ ''|'' @ concat (map spec_prompt_entry (enumerate 0 prompts))"

definition spec_cacheKey :: "(string \<Rightarrow> 64 word) \<Rightarrow> string \<Rightarrow> string \<Rightarrow> string list \<Rightarrow> string" where
  "spec_cacheKey sum64 model query prompts = PutUint64 (sum64 (spec_fingerprint model query prompts))"

text \<open>What the code writes for one prompt.\<close>

definition prompt_entry :: "nat \<times> string \<Rightarrow> string" where
  "prompt_entry ip = ''p'' @ [byte (fst ip div 256), byte (fst ip)] @ '':'' @ snd ip @ ''|''"

text \<open>A concrete function in place of the hash, to evaluate keys on examples.\<close>

definition length_sum64 :: "string \<Rightarrow> 64 word" where
  "length_sum64 bs = of_nat (length bs)"

section \<open>Wildcard patterns for model names\<close>

subsection \<open>The part of the standard library's regular expressions that is used\<close>

text \<open>
  Go's \<open>regexp\<close> package is outside the repository.  The expressions that
  \<open>CompileModelPattern\<close> builds are anchored sequences of literal characters and of
  \<open>.*\<close>, and this fragment is modelled: an expression \<open>^\<close> \<dots> \<open>$\<close> whose items are a
  character, an escaped metacharacter or \<open>.\<close>, each optionally followed by \<open>*\<close>.
  Without flags \<open>.\<close> matches every character but the newline, and \<open>^\<close> and \<open>$\<close> match
  the two ends of the text.  \<open>regexp_Compile\<close> returns an error on every other
  expression, whether Go rejects it or it lies outside the fragment.
\<close>

definition specialBytes :: string where
  "specialBytes = [CHR 0x5C] @ ''.+*?()|[]{}^$''"

definition special :: "char \<Rightarrow> bool" where
  "special c = (c \<in> set specialBytes)"

fun QuoteMeta :: "string \<Rightarrow> string" where
  "QuoteMeta [] = []"
| "QuoteMeta (c # cs) = (if special c then CHR 0x5C # c # QuoteMeta cs else c # QuoteMeta cs)"

text \<open>\<open>strings.ReplaceAll\<close> for a non-empty \<open>old\<close>, as at its use here.\<close>

function ReplaceAll :: "string \<Rightarrow> string \<Rightarrow> string \<Rightarrow> string" where
  "ReplaceAll s old new =
     (if s = [] \<or> old = [] then s
      else if HasPrefix s old then new @ ReplaceAll (drop (length old) s) old new
      else hd s # ReplaceAll (tl s) old new)"
  by pat_completeness auto
termination
  by (relation "measure (\<lambda>(s, old, new). length s)") auto

datatype atom = Lit char | AnyCharNotNL

datatype piece = One atom | Star atom

text \<open>
  A compiled expression is a list of items of the fragment, or any other expression, given
  by the strings it matches.
\<close>

datatype Regexp = Regexp "piece list" | Compiled "string \<Rightarrow> bool"

fun parse_atom :: "string \<Rightarrow> error + (atom \<times> string)" where
  "parse_atom [] = Inl ''missing argument''"
| "parse_atom (c # cs) =
     (if c = CHR 0x5C then
        (case cs of
           [] \<Rightarrow> Inl ''trailing backslash at end of expression''
         | d # ds \<Rightarrow> if special d then Inr (Lit d, ds) else Inl ''escape outside the fragment'')
      else if c = CHR ''.'' then Inr (AnyCharNotNL, cs)
      else if special c then Inl ''operator outside the fragment''
      else Inr (Lit c, cs))"

lemma parse_atom_shorter: "parse_atom s = Inr (a, rest) \<Longrightarrow> length rest < length s"
  by (cases s) (auto split: if_splits list.splits)

function parse_items :: "string \<Rightarrow> error + piece list" where
  "parse_items s =
     (if s = [] then Inl ''expression without the end anchor''
      else if s = ''$'' then Inr []
      else
        (case parse_atom s of
           Inl err \<Rightarrow> Inl err
         | Inr (a, rest) \<Rightarrow>
             if rest \<noteq> [] \<and> hd rest = CHR ''*'' then
               (if tl rest \<noteq> [] \<and> hd (tl rest) \<in> set ''*+?''
                then Inl ''repetition outside the fragment''
                else (case parse_items (tl rest) of
                        Inl err \<Rightarrow> Inl err
                      | Inr ps \<Rightarrow> Inr (Star a # ps)))
             else
               (case parse_items rest of
                  Inl err \<Rightarrow> Inl err
                | Inr ps \<Rightarrow> Inr (One a # ps))))"
  by pat_completeness auto
termination
  by (relation "measure length") (auto dest: parse_atom_shorter)

definition regexp_Compile :: "string \<Rightarrow> error + Regexp" where
  "regexp_Compile expr =
     (case expr of
        [] \<Rightarrow> Inl ''expression without the start anchor''
      | c # cs \<Rightarrow>
          if c = CHR ''^'' then
            (case parse_items cs of Inl err \<Rightarrow> Inl err | Inr ps \<Rightarrow> Inr (Regexp ps))
          else Inl ''expression without the start anchor'')"

fun atom_matches :: "atom \<Rightarrow> char \<Rightarrow> bool" where
  "atom_matches (Lit c) d = (d = c)"
| "atom_matches AnyCharNotNL d = (d \<noteq> CHR 0x0A)"

fun matches :: "piece list \<Rightarrow> string \<Rightarrow> bool" where
  "matches [] s = (s = [])"
| "matches (One a # ps) [] = False"
| "matches (One a # ps) (c # cs) = (atom_matches a c \<and> matches ps cs)"
| "matches (Star a # ps) [] = matches ps []"
| "matches (Star a # ps) (c # cs) =
     (matches ps (c # cs) \<or> (atom_matches a c \<and> matches (Star a # ps) cs))"

fun MatchString :: "Regexp \<Rightarrow> string \<Rightarrow> bool" where
  "MatchString (Regexp ps) s = matches ps s"
| "MatchString (Compiled f) s = f s"

subsection \<open>Compiling a pattern\<close>

definition CompileModelPattern :: "string \<Rightarrow> error + Regexp" where
  "CompileModelPattern pattern =
     (let escaped = QuoteMeta pattern;
          regexPattern = ReplaceAll escaped ([CHR 0x5C] @ ''*'') ''.*'';
          regexPattern = ''^'' @ regexPattern @ ''$''
      in regexp_Compile regexPattern)"




declare ReplaceAll.simps [simp del]
declare parse_items.simps [simp del]

section \<open>Routes\<close>

text \<open>
  The compiled route of the proxy.  An \<open>int32\<close> or \<open>int64\<close> field is an \<^typ>\<open>int\<close>
  where the code only compares or counts.  The fallback and retry fields of \<open>Route\<close> play
  no part in matching, selection or rate limiting and are left out.
\<close>

record StringMatcher =
  Exact :: string
  Prefix :: string
  Regex :: "Regexp option"

definition Matches :: "StringMatcher \<Rightarrow> string \<Rightarrow> bool" where
  "Matches m v =
     (if Exact m \<noteq> [] \<and> v = Exact m then True
      else if Prefix m \<noteq> [] \<and> HasPrefix v (Prefix m) then True
      else if (case Regex m of None \<Rightarrow> False | Some re \<Rightarrow> MatchString re v) then True
      else False)"

record Destination =
  Pool :: string
  Weight :: int
  QueueDepthCondition :: "ThresholdCondition option"
  ReplicaCondition :: "ThresholdCondition option"
  LatencyCondition :: "ThresholdCondition option"
  RequireModelLoaded :: bool
  TimeCondition :: "TimeWindow option"

record modelLimit =
  ml_tokens :: real
  ml_lastUpdate :: Time

record RateLimiter =
  rate :: real
  burstSize :: int
  tokens :: real
  lastUpdate :: Time
  perModel :: bool
  modelLimits :: "(string \<times> modelLimit) list"

record Route =
  Name :: string
  Priority :: int
  Operations :: "(string \<times> bool) list"
  ModelPatterns :: "Regexp list"
  HeaderMatchers :: "(string \<times> StringMatcher) list"
  SourceTables :: "(string \<times> bool) list"
  TimeWindow :: "TimeWindow option"
  Destinations :: "Destination list"
  RateLimiter :: "RateLimiter option"
  MatchedRequests :: int
  LastMatchTime :: Time

record RouteRequest =
  Operation :: string
  Model :: string
  Headers :: "(string \<times> string) list"
  SourceTable :: string
  Timestamp :: Time

record RouteManager =
  routes :: "Route list"

subsection \<open>The rate limiter\<close>

text \<open>
  \<open>time.Now()\<close> is a parameter \<open>now\<close> of the operations that read the clock.  The
  refill and the withdrawal act on the bucket that \<open>Allow\<close> has chosen, the limiter's own
  or the one of the model.
\<close>

definition NewRateLimiter :: "Time \<Rightarrow> int \<Rightarrow> int \<Rightarrow> bool \<Rightarrow> RateLimiter" where
  "NewRateLimiter now rps burst pm =
     \<lparr>rate = real_of_int rps, burstSize = burst, tokens = real_of_int burst, lastUpdate = now,
      perModel = pm, modelLimits = []\<rparr>"

definition refill_take :: "real \<Rightarrow> int \<Rightarrow> Time \<Rightarrow> real \<times> Time \<Rightarrow> bool \<times> real \<times> Time" where
  "refill_take r b now bucket =
     (let elapsed = Seconds (Sub now (snd bucket));
          t = fst bucket + elapsed * r;
          t = (if t > real_of_int b then real_of_int b else t)
      in if t \<ge> 1 then (True, t - 1, now) else (False, t, now))"

definition Allow :: "RateLimiter \<Rightarrow> Time \<Rightarrow> string \<Rightarrow> bool \<times> RateLimiter" where
  "Allow rl now model =
     (if perModel rl then
        (let ml = (case map_of (modelLimits rl) model of
                     None \<Rightarrow> \<lparr>ml_tokens = real_of_int (burstSize rl), ml_lastUpdate = now\<rparr>
                   | Some ml \<Rightarrow> ml);
             (ok, t, u) = refill_take (rate rl) (burstSize rl) now (ml_tokens ml, ml_lastUpdate ml)
         in (ok, rl\<lparr>modelLimits :=
                       AList.update model \<lparr>ml_tokens = t, ml_lastUpdate = u\<rparr> (modelLimits rl)\<rparr>))
      else
        (let (ok, t, u) = refill_take (rate rl) (burstSize rl) now (tokens rl, lastUpdate rl)
         in (ok, rl\<lparr>tokens := t, lastUpdate := u\<rparr>)))"



subsection \<open>The route manager\<close>

definition NewRouteManager :: RouteManager where
  "NewRouteManager = \<lparr>routes = []\<rparr>"

text \<open>
  \<open>sort.Slice\<close> belongs to the standard library.  It is modelled by insertion sort with
  the same comparison; the names of the routes of a manager are distinct, so it orders
  them strictly and every sorting algorithm returns the same list.
\<close>

fun insert_by :: "('a \<Rightarrow> 'a \<Rightarrow> bool) \<Rightarrow> 'a \<Rightarrow> 'a list \<Rightarrow> 'a list" where
  "insert_by lt x [] = [x]"
| "insert_by lt x (y # ys) = (if lt y x then y # insert_by lt x ys else x # y # ys)"

definition sort_Slice :: "('a \<Rightarrow> 'a \<Rightarrow> bool) \<Rightarrow> 'a list \<Rightarrow> 'a list" where
  "sort_Slice lt xs = foldr (insert_by lt) xs []"

definition route_less :: "Route \<Rightarrow> Route \<Rightarrow> bool" where
  "route_less a b = (if Priority a \<noteq> Priority b then Priority a > Priority b else Name a < Name b)"

definition AddRoute :: "RouteManager \<Rightarrow> Route \<Rightarrow> RouteManager" where
  "AddRoute rm route =
     (let newRoutes = filter (\<lambda>r. Name r \<noteq> Name route) (routes rm);
          newRoutes = newRoutes @ [route]
      in rm\<lparr>routes := sort_Slice route_less newRoutes\<rparr>)"

definition RemoveRoute :: "RouteManager \<Rightarrow> string \<Rightarrow> RouteManager" where
  "RemoveRoute rm name = rm\<lparr>routes := filter (\<lambda>r. Name r \<noteq> name) (routes rm)\<rparr>"

definition matchRoute :: "Route \<Rightarrow> RouteRequest \<Rightarrow> bool" where
  "matchRoute route req =
     (if length (Operations route) > 0 \<and> \<not> lookup_bool (Operations route) (Operation req)
      then False
      else if length (ModelPatterns route) > 0
              \<and> \<not> list_ex (\<lambda>pattern. MatchString pattern (Model req)) (ModelPatterns route)
      then False
      else if list_ex (\<lambda>(headerName, matcher).
                  case map_of (Headers req) headerName of
                    None \<Rightarrow> True
                  | Some v \<Rightarrow> \<not> Matches matcher v) (HeaderMatchers route)
      then False
      else if length (SourceTables route) > 0
              \<and> \<not> lookup_bool (SourceTables route) (SourceTable req)
      then False
      else if (case TimeWindow route of
                 None \<Rightarrow> False
               | Some tw \<Rightarrow> \<not> IsActive tw (Timestamp req))
      then False
      else True)"

text \<open>
  \<open>Match\<close> returns the first route of the list that matches, after counting the match on
  it, and the manager with that route updated; \<open>None\<close> is the nil result.
\<close>

fun Match_loop :: "Route list \<Rightarrow> RouteRequest \<Rightarrow> Route option \<times> Route list" where
  "Match_loop [] req = (None, [])"
| "Match_loop (route # rs) req =
     (if matchRoute route req
      then (let route' = route\<lparr>MatchedRequests := MatchedRequests route + 1,
                                LastMatchTime := Timestamp req\<rparr>
            in (Some route', route' # rs))
      else (fst (Match_loop rs req), route # snd (Match_loop rs req)))"

definition Match :: "RouteManager \<Rightarrow> RouteRequest \<Rightarrow> Route option \<times> RouteManager" where
  "Match rm req = (fst (Match_loop (routes rm) req), rm\<lparr>routes := snd (Match_loop (routes rm) req)\<rparr>)"

subsection \<open>Choosing a destination\<close>











subsection \<open>Values for examples\<close>

text \<open>A route with an empty match block and no destinations, and a request.\<close>

definition plain_route :: "string \<Rightarrow> int \<Rightarrow> Route" where
  "plain_route n p =
     \<lparr>Name = n, Priority = p, Operations = [], ModelPatterns = [], HeaderMatchers = [],
      SourceTables = [], TimeWindow = None, Destinations = [], RateLimiter = None,
      MatchedRequests = 0, LastMatchTime = 0\<rparr>"

definition embed_request :: RouteRequest where
  "embed_request =
     \<lparr>Operation = ''embed'', Model = ''bge-small'', Headers = [], SourceTable = [], Timestamp = 0\<rparr>"



subsection \<open>The bucket of a model\<close>

text \<open>
  The bucket that a call for \<open>model\<close> draws on: the limiter's own, or in per-model mode
  the bucket of the model, which is full until its first call creates it (\<open>t0\<close> stands
  for a time not after that call).
\<close>

definition bucket :: "RateLimiter \<Rightarrow> string \<Rightarrow> Time \<Rightarrow> real \<times> Time" where
  "bucket rl model t0 =
     (if perModel rl then
        (case map_of (modelLimits rl) model of
           None \<Rightarrow> (real_of_int (burstSize rl), t0)
         | Some ml \<Rightarrow> (ml_tokens ml, ml_lastUpdate ml))
      else (tokens rl, lastUpdate rl))"


section \<open>The route watcher\<close>

subsection \<open>Unstructured objects\<close>

text \<open>
  The content of an unstructured Kubernetes object is a tree of \<open>any\<close> values: nil,
  strings, numbers, booleans, maps with string keys and slices.  Reading a missing key of
  a \<open>map[string]any\<close> gives nil, and a type assertion \<open>v.(T)\<close> succeeds on the values
  of type \<open>T\<close> only.  An object that reaches the watcher is an \<open>Unstructured\<close> with its
  namespace, name and content, or something else.
\<close>

datatype any = ANil | AString string | AFloat64 real | AInt64 int | AInt32 int | ABool bool
  | AMap "(string \<times> any) list" | ASlice "any list"

datatype object = Unstructured string string "(string \<times> any) list" | OtherObject

definition index :: "(string \<times> any) list \<Rightarrow> string \<Rightarrow> any" where
  "index m key = (case map_of m key of None \<Rightarrow> ANil | Some v \<Rightarrow> v)"

definition MaxInt32 :: int where
  "MaxInt32 = 2147483647"

definition MinInt32 :: int where
  "MinInt32 = - 2147483648"

text \<open>The conversion of a \<open>float64\<close> to an integer drops the fraction.\<close>

definition truncate :: "real \<Rightarrow> int" where
  "truncate v = (if v \<ge> 0 then \<lfloor>v\<rfloor> else \<lceil>v\<rceil>)"

definition getString :: "(string \<times> any) list \<Rightarrow> string \<Rightarrow> string" where
  "getString m key = (case index m key of AString v \<Rightarrow> v | _ \<Rightarrow> [])"

definition getInt32 :: "(string \<times> any) list \<Rightarrow> string \<Rightarrow> int \<Rightarrow> int" where
  "getInt32 m key defaultVal =
     (case index m key of
        AFloat64 v \<Rightarrow>
          if v > real_of_int MaxInt32 then MaxInt32
          else if v < real_of_int MinInt32 then MinInt32
          else truncate v
      | AInt64 v \<Rightarrow>
          if v > MaxInt32 then MaxInt32
          else if v < MinInt32 then MinInt32
          else v
      | AInt32 v \<Rightarrow> v
      | _ \<Rightarrow> defaultVal)"

subsection \<open>Time windows of a resource\<close>

text \<open>
  \<open>strings.Split\<close> with the one-character separator \<open>:\<close>, and the value that
  \<open>strconv.Atoi\<close> returns: the number for an optional sign followed by decimal digits,
  limited to the range of \<open>int\<close>, and 0 for any other string.  Its error is dropped by
  the caller.
\<close>

fun Split :: "string \<Rightarrow> char \<Rightarrow> string list" where
  "Split [] sep = [[]]"
| "Split (c # cs) sep =
     (if c = sep then [] # Split cs sep
      else (case Split cs sep of [] \<Rightarrow> [[c]] | p # ps \<Rightarrow> (c # p) # ps))"

definition digits_value :: "string \<Rightarrow> int" where
  "digits_value ds = foldl (\<lambda>a c. a * 10 + (int (of_char c) - 48)) 0 ds"

definition Atoi :: "string \<Rightarrow> int" where
  "Atoi s =
     (let body = (if s \<noteq> [] \<and> (hd s = CHR ''+'' \<or> hd s = CHR ''-'') then tl s else s) in
      if body = [] \<or> \<not> list_all isDigit body then 0
      else if s \<noteq> [] \<and> hd s = CHR ''-''
      then max (- 9223372036854775808) (- digits_value body)
      else min 9223372036854775807 (digits_value body))"

fun days_loop :: "any list \<Rightarrow> (int \<times> bool) list \<Rightarrow> (int \<times> bool) list" where
  "days_loop [] ds = ds"
| "days_loop (d # rest) ds =
     days_loop rest (case d of AFloat64 day \<Rightarrow> AList.update (truncate day) True ds | _ \<Rightarrow> ds)"

definition parseTimeWindow :: "(string \<times> any) list \<Rightarrow> TimeWindow" where
  "parseTimeWindow tw =
     (let window = \<lparr>StartHour = 0, StartMinute = 0, EndHour = 0, EndMinute = 0, Days = []\<rparr>;
          window = (case index tw ''start'' of
                      AString start \<Rightarrow>
                        (let parts = Split start CHR '':'' in
                         if length parts = 2
                         then window\<lparr>StartHour := Atoi (parts ! 0), StartMinute := Atoi (parts ! 1)\<rparr>
                         else window)
                    | _ \<Rightarrow> window);
          window = (case index tw ''end'' of
                      AString end' \<Rightarrow>
                        (let parts = Split end' CHR '':'' in
                         if length parts = 2
                         then window\<lparr>EndHour := Atoi (parts ! 0), EndMinute := Atoi (parts ! 1)\<rparr>
                         else window)
                    | _ \<Rightarrow> window)
      in (case index tw ''days'' of
            ASlice days \<Rightarrow> window\<lparr>Days := days_loop days (Days window)\<rparr>
          | _ \<Rightarrow> window))"

subsection \<open>Converting a resource to a route\<close>

text \<open>
  \<open>regexp.Compile\<close> on the expression of a header matcher is a parameter \<open>compile\<close>,
  and \<open>time.Now()\<close> is the parameter \<open>now\<close>.  The zero \<open>time.Time\<close> is the first
  instant of year 1.  Each block of \<open>convertRoute\<close> is a function of its own here (the source
  tables are set to \<open>true\<close> by the same loop as the operations); the
  blocks for the fallback and the retry configuration fill fields that are left out of
  \<open>Route\<close>.
\<close>

definition zero_Time :: Time where
  "zero_Time = - 62135596800000000000"

fun operations_loop :: "any list \<Rightarrow> (string \<times> bool) list \<Rightarrow> (string \<times> bool) list" where
  "operations_loop [] m = m"
| "operations_loop (op # rest) m =
     operations_loop rest (case op of AString opStr \<Rightarrow> AList.update opStr True m | _ \<Rightarrow> m)"

fun models_loop :: "any list \<Rightarrow> Regexp list \<Rightarrow> Regexp list" where
  "models_loop [] ps = ps"
| "models_loop (model # rest) ps =
     models_loop rest
       (case model of
          AString modelStr \<Rightarrow>
            (case CompileModelPattern modelStr of Inl err \<Rightarrow> ps | Inr pattern \<Rightarrow> ps @ [pattern])
        | _ \<Rightarrow> ps)"

definition header_matcher :: "(string \<Rightarrow> error + Regexp) \<Rightarrow> (string \<times> any) list \<Rightarrow> StringMatcher" where
  "header_matcher compile matchMap =
     (let matcher = \<lparr>Exact = [], Prefix = [], Regex = None\<rparr>;
          matcher = (case index matchMap ''exact'' of
                       AString exact \<Rightarrow> matcher\<lparr>Exact := exact\<rparr> | _ \<Rightarrow> matcher);
          matcher = (case index matchMap ''prefix'' of
                       AString prefix \<Rightarrow> matcher\<lparr>Prefix := prefix\<rparr> | _ \<Rightarrow> matcher)
      in (case index matchMap ''regex'' of
            AString regexStr \<Rightarrow>
              (case compile regexStr of
                 Inl err \<Rightarrow> matcher
               | Inr regex \<Rightarrow> matcher\<lparr>Regex := Some regex\<rparr>)
          | _ \<Rightarrow> matcher))"

fun headers_loop :: "(string \<Rightarrow> error + Regexp) \<Rightarrow> (string \<times> any) list \<Rightarrow>
    (string \<times> StringMatcher) list \<Rightarrow> (string \<times> StringMatcher) list" where
  "headers_loop compile [] m = m"
| "headers_loop compile (h # rest) m =
     headers_loop compile rest
       (case snd h of
          AMap matchMap \<Rightarrow> AList.update (fst h) (header_matcher compile matchMap) m
        | _ \<Rightarrow> m)"

definition matchOperations :: "(string \<times> any) list \<Rightarrow> Route \<Rightarrow> Route" where
  "matchOperations match' route =
     (case index match' ''operations'' of
        ASlice ops \<Rightarrow> route\<lparr>Operations := operations_loop ops (Operations route)\<rparr>
      | _ \<Rightarrow> route)"

definition matchModels :: "(string \<times> any) list \<Rightarrow> Route \<Rightarrow> Route" where
  "matchModels match' route =
     (case index match' ''models'' of
        ASlice models \<Rightarrow> route\<lparr>ModelPatterns := models_loop models (ModelPatterns route)\<rparr>
      | _ \<Rightarrow> route)"

definition matchHeaders :: "(string \<Rightarrow> error + Regexp) \<Rightarrow> (string \<times> any) list \<Rightarrow> Route \<Rightarrow> Route" where
  "matchHeaders compile match' route =
     (case index match' ''headers'' of
        AMap headers \<Rightarrow>
          route\<lparr>HeaderMatchers := headers_loop compile headers (HeaderMatchers route)\<rparr>
      | _ \<Rightarrow> route)"

definition matchSource :: "(string \<times> any) list \<Rightarrow> Route \<Rightarrow> Route" where
  "matchSource match' route =
     (case index match' ''source'' of
        AMap source \<Rightarrow>
          (case index source ''tables'' of
             ASlice tables \<Rightarrow>
               route\<lparr>SourceTables := operations_loop tables (SourceTables route)\<rparr>
           | _ \<Rightarrow> route)
      | _ \<Rightarrow> route)"

definition matchTimeWindow :: "(string \<times> any) list \<Rightarrow> Route \<Rightarrow> Route" where
  "matchTimeWindow match' route =
     (case index match' ''timeWindow'' of
        AMap tw \<Rightarrow> route\<lparr>TimeWindow := Some (parseTimeWindow tw)\<rparr>
      | _ \<Rightarrow> route)"

definition convertMatch :: "(string \<Rightarrow> error + Regexp) \<Rightarrow> (string \<times> any) list \<Rightarrow> Route \<Rightarrow> Route" where
  "convertMatch compile spec route =
     (case index spec ''match'' of
        AMap match' \<Rightarrow>
          (let route = matchOperations match' route;
               route = matchModels match' route;
               route = matchHeaders compile match' route;
               route = matchSource match' route
           in matchTimeWindow match' route)
      | _ \<Rightarrow> route)"

definition parse_condition :: "any \<Rightarrow> ThresholdCondition option" where
  "parse_condition v =
     (case v of
        AString s \<Rightarrow> (case ParseThresholdCondition s of Inl err \<Rightarrow> None | Inr cond \<Rightarrow> Some cond)
      | _ \<Rightarrow> None)"

definition convertDestination :: "(string \<times> any) list \<Rightarrow> Destination" where
  "convertDestination destMap =
     (let dest = \<lparr>Pool = getString destMap ''pool'', Weight = getInt32 destMap ''weight'' 100,
                  QueueDepthCondition = None, ReplicaCondition = None, LatencyCondition = None,
                  RequireModelLoaded = False, TimeCondition = None\<rparr>
      in (case index destMap ''condition'' of
            AMap condition \<Rightarrow>
              dest\<lparr>QueueDepthCondition := parse_condition (index condition ''queueDepth''),
                   ReplicaCondition := parse_condition (index condition ''availableReplicas''),
                   LatencyCondition := parse_condition (index condition ''latency''),
                   RequireModelLoaded := (case index condition ''modelLoaded'' of
                                            ABool ml \<Rightarrow> ml | _ \<Rightarrow> False),
                   TimeCondition := (case index condition ''timeOfDay'' of
                                       AMap tod \<Rightarrow> Some (parseTimeWindow tod) | _ \<Rightarrow> None)\<rparr>
          | _ \<Rightarrow> dest))"

fun destinations_loop :: "any list \<Rightarrow> Destination list \<Rightarrow> Destination list" where
  "destinations_loop [] ds = ds"
| "destinations_loop (destObj # rest) ds =
     destinations_loop rest
       (case destObj of AMap destMap \<Rightarrow> ds @ [convertDestination destMap] | _ \<Rightarrow> ds)"

definition convertDestinations :: "(string \<times> any) list \<Rightarrow> Route \<Rightarrow> Route" where
  "convertDestinations spec route =
     (case index spec ''route'' of
        ASlice destinations \<Rightarrow>
          route\<lparr>Destinations := destinations_loop destinations (Destinations route)\<rparr>
      | _ \<Rightarrow> route)"

definition convertRateLimiting :: "Time \<Rightarrow> (string \<times> any) list \<Rightarrow> Route \<Rightarrow> Route" where
  "convertRateLimiting now spec route =
     (case index spec ''rateLimiting'' of
        AMap rl \<Rightarrow>
          (let rps = getInt32 rl ''requestsPerSecond'' 0;
               burst = getInt32 rl ''burstSize'' rps;
               perModel = (case index rl ''perModel'' of ABool b \<Rightarrow> b | _ \<Rightarrow> False)
           in if rps > 0
              then route\<lparr>RateLimiter := Some (NewRateLimiter now rps burst perModel)\<rparr>
              else route)
      | _ \<Rightarrow> route)"

definition convertRoute :: "(string \<Rightarrow> error + Regexp) \<Rightarrow> Time \<Rightarrow> object \<Rightarrow> error + Route" where
  "convertRoute compile now obj =
     (case obj of
        OtherObject \<Rightarrow> Inl ''object is not Unstructured''
      | Unstructured namespace name content \<Rightarrow>
          (case index content ''spec'' of
             AMap spec \<Rightarrow>
               (let fullName = namespace @ ''/'' @ name;
                    route = \<lparr>Name = fullName, Priority = getInt32 spec ''priority'' 100,
                             Operations = [], ModelPatterns = [], HeaderMatchers = [],
                             SourceTables = [], TimeWindow = None, Destinations = [],
                             RateLimiter = None, MatchedRequests = 0, LastMatchTime = zero_Time\<rparr>;
                    route = convertMatch compile spec route;
                    route = convertDestinations spec route;
                    route = convertRateLimiting now spec route
                in Inr route)
           | _ \<Rightarrow> Inl ''spec not found''))"

text \<open>The handlers log a route that does not convert and leave the manager as it is.\<close>

definition onRouteAdd :: "(string \<Rightarrow> error + Regexp) \<Rightarrow> Time \<Rightarrow> RouteManager \<Rightarrow> object \<Rightarrow> RouteManager" where
  "onRouteAdd compile now rm obj =
     (case convertRoute compile now obj of Inl err \<Rightarrow> rm | Inr route \<Rightarrow> AddRoute rm route)"

definition onRouteUpdate :: "(string \<Rightarrow> error + Regexp) \<Rightarrow> Time \<Rightarrow> RouteManager \<Rightarrow> object \<Rightarrow> object \<Rightarrow>
    RouteManager" where
  "onRouteUpdate compile now rm oldObj newObj =
     (case convertRoute compile now newObj of Inl err \<Rightarrow> rm | Inr route \<Rightarrow> AddRoute rm route)"

text \<open>
  A resource with a rate limit of one request per second and a burst of two, and the route
  that it converts to at the time \<open>now\<close>.
\<close>

definition limited_object :: object where
  "limited_object =
     Unstructured ''ns'' ''r''
       [(''spec'', AMap [(''rateLimiting'',
           AMap [(''requestsPerSecond'', AInt64 1), (''burstSize'', AInt64 2)])])]"

definition limited_route :: "Time \<Rightarrow> Route" where
  "limited_route now =
     \<lparr>Name = ''ns/r'', Priority = 100, Operations = [], ModelPatterns = [], HeaderMatchers = [],
      SourceTables = [], TimeWindow = None, Destinations = [],
      RateLimiter = Some (NewRateLimiter now 1 2 False),
      MatchedRequests = 0, LastMatchTime = zero_Time\<rparr>"

section \<open>Threshold parsing: properties\<close>

lemmas parse_defs = ParseThresholdCondition_def TrimSpace_def isSpace_def HasPrefix_def
  TrimPrefix_def CutSuffix_def HasSuffix_def parseFloat_def parseFloatInternal_def pf_step_def
  isDigit_def

text \<open>
  Claim C8.  \<open>ParseThresholdCondition(">50")\<close> gives a condition that holds of 51 and
  not of 50; \<open>ParseThresholdCondition(">=50")\<close> gives a condition that holds of 50; and
  \<open>"100ms"\<close> is converted to seconds: it parses to the value 0.1.
\<close>

theorem C8_threshold_examples:
  "ParseThresholdCondition ''>50'' = Inr \<lparr>Operator = ''>'', Value = 50\<rparr>
   \<and> Evaluate \<lparr>Operator = ''>'', Value = 50\<rparr> 51
   \<and> \<not> Evaluate \<lparr>Operator = ''>'', Value = 50\<rparr> 50
   \<and> ParseThresholdCondition ''>=50'' = Inr \<lparr>Operator = ''>='', Value = 50\<rparr>
   \<and> Evaluate \<lparr>Operator = ''>='', Value = 50\<rparr> 50
   \<and> ParseThresholdCondition ''100ms'' = Inr \<lparr>Operator = ''=='', Value = 1 / 10\<rparr>"
  by (simp add: parse_defs Evaluate_def)

text \<open>
  Claim C10.  \<open>ParseThresholdCondition\<close> returns a condition and a nil error for every
  input string: the float parser skips every character that is not a digit, a leading
  \<open>-\<close> or a \<open>.\<close> and never fails.  The malformed \<open>">abc"\<close> is accepted with
  value 0.
\<close>

theorem C10_parse_never_fails:
  "(\<exists>c. ParseThresholdCondition s = Inr c)
   \<and> ParseThresholdCondition ''>abc'' = Inr \<lparr>Operator = ''>'', Value = 0\<rparr>"
proof
  show "\<exists>c. ParseThresholdCondition s = Inr c"
    unfolding ParseThresholdCondition_def Let_def
    by (auto simp: parseFloat_def parseFloatInternal_def Let_def split: prod.splits sum.splits)
  show "ParseThresholdCondition ''>abc'' = Inr \<lparr>Operator = ''>'', Value = 0\<rparr>"
    by (simp add: parse_defs)
qed

section \<open>Time windows: properties\<close>



section \<open>Admission of pools: properties\<close>










section \<open>The reranking cache key: properties\<close>

lemma write_prompts_concat:
  "write_prompts i ps h = h @ concat (map prompt_entry (enumerate i ps))"
  by (induction ps arbitrary: i h)
     (simp_all add: prompt_entry_def WriteString_def Write_def Let_def)

text \<open>
  Claim C2, amended.  The cache key is the 8-byte big-endian encoding of the 64-bit hash of
  exactly this concatenation: the model name, \<open>|\<close>, \<open>q:\<close>, the query, \<open>|\<close>, then for
  each prompt the byte \<open>p\<close>, the two low bytes of its index in big-endian order, \<open>:\<close>,
  the prompt text and \<open>|\<close>.
\<close>

theorem C2_cache_key_layout:
  "cacheKey sum64 model query prompts =
     PutUint64 (sum64 (model @ ''|'' @ ''q:'' @ query @ ''|''
                       @ concat (map prompt_entry (enumerate 0 prompts))))
   \<and> length (cacheKey sum64 model query prompts) = 8"
  by (simp add: cacheKey_def cacheKey_written_def write_prompts_concat New_def WriteString_def
      PutUint64_def)

text \<open>
  Claim C2 as stated fails: the code writes a \<open>p\<close> before the index of each prompt, so
  the bytes that are hashed are not the concatenation of the claim, and the keys differ as
  soon as the hash tells the two byte strings apart.
\<close>

theorem C2_prompt_marker_counterexample:
  "cacheKey_written ''m'' ''q'' [''a''] = ''m|q:q|p'' @ [CHR 0x00, CHR 0x00] @ '':a|''
   \<and> spec_fingerprint ''m'' ''q'' [''a''] = ''m|q:q|'' @ [CHR 0x00, CHR 0x00] @ '':a|''
   \<and> cacheKey_written ''m'' ''q'' [''a''] \<noteq> spec_fingerprint ''m'' ''q'' [''a'']
   \<and> cacheKey length_sum64 ''m'' ''q'' [''a''] \<noteq> spec_cacheKey length_sum64 ''m'' ''q'' [''a'']"
  by (simp add: cacheKey_def spec_cacheKey_def cacheKey_written_def spec_fingerprint_def
      spec_prompt_entry_def New_def WriteString_def Write_def byte_def PutUint64_def
      length_sum64_def char_of_def bit_simps)

section \<open>Wildcard patterns: properties\<close>


















section \<open>Route matching: properties\<close>

lemma set_insert_by: "set (insert_by lt x xs) = insert x (set xs)"
  by (induction xs) auto

lemma set_sort_Slice: "set (sort_Slice lt xs) = set xs"
  by (induction xs) (simp_all add: sort_Slice_def set_insert_by)

lemma route_less_asym: "route_less y x \<Longrightarrow> \<not> route_less x y"
  by (auto simp: route_less_def split: if_splits)

lemma route_less_negtrans: "\<not> route_less y x \<Longrightarrow> \<not> route_less z y \<Longrightarrow> \<not> route_less z x"
  by (auto simp: route_less_def split: if_splits)

lemma sorted_insert_by:
  "sorted_wrt (\<lambda>a b. \<not> route_less b a) xs \<Longrightarrow>
   sorted_wrt (\<lambda>a b. \<not> route_less b a) (insert_by route_less x xs)"
proof (induction xs)
  case Nil
  show ?case by simp
next
  case (Cons y ys)
  show ?case
  proof (cases "route_less y x")
    case True
    with Cons show ?thesis
      by (auto simp: set_insert_by route_less_asym)
  next
    case False
    with Cons show ?thesis
      by (auto dest: route_less_negtrans [of y x])
  qed
qed

lemma sorted_sort_Slice: "sorted_wrt (\<lambda>a b. \<not> route_less b a) (sort_Slice route_less xs)"
  by (induction xs) (simp_all add: sort_Slice_def sorted_insert_by)

lemma routes_sorted:
  "sorted_wrt (\<lambda>a b. \<not> route_less b a) (routes (foldl AddRoute NewRouteManager rs))"
  by (cases rs rule: rev_cases)
     (simp_all add: NewRouteManager_def AddRoute_def sorted_sort_Slice)

lemma distinct_insert_by:
  "distinct (map f xs) \<Longrightarrow> f x \<notin> f ` set xs \<Longrightarrow> distinct (map f (insert_by lt x xs))"
  by (induction xs) (auto simp: set_insert_by)

lemma distinct_sort_Slice: "distinct (map f xs) \<Longrightarrow> distinct (map f (sort_Slice lt xs))"
proof (induction xs)
  case Nil
  show ?case by (simp add: sort_Slice_def)
next
  case (Cons x xs)
  then have "distinct (map f (foldr (insert_by lt) xs []))" "f x \<notin> f ` set (foldr (insert_by lt) xs [])"
    using set_sort_Slice [of lt xs] by (auto simp: sort_Slice_def)
  then show ?case by (simp add: sort_Slice_def distinct_insert_by)
qed

lemma AddRoute_distinct:
  "distinct (map Name (routes rm)) \<Longrightarrow> distinct (map Name (routes (AddRoute rm r)))"
  by (auto simp: AddRoute_def distinct_map_filter intro!: distinct_sort_Slice)

lemma routes_distinct: "distinct (map Name (routes (foldl AddRoute NewRouteManager rs)))"
  by (induction rs rule: rev_induct) (simp_all add: NewRouteManager_def AddRoute_distinct)

lemma Match_loop_None:
  "fst (Match_loop rs req) = None \<longleftrightarrow> (\<forall>r\<in>set rs. \<not> matchRoute r req)"
  by (induction rs) (simp_all add: Let_def)

lemma Match_loop_Some:
  "fst (Match_loop rs req) = Some m \<Longrightarrow> sorted_wrt (\<lambda>a b. \<not> route_less b a) rs \<Longrightarrow>
   \<exists>r\<in>set rs. matchRoute r req
     \<and> m = r\<lparr>MatchedRequests := MatchedRequests r + 1, LastMatchTime := Timestamp req\<rparr>
     \<and> (\<forall>r'\<in>set rs. matchRoute r' req \<longrightarrow> \<not> route_less r' r)"
proof (induction rs)
  case Nil
  then show ?case by simp
next
  case (Cons a rs)
  show ?case
  proof (cases "matchRoute a req")
    case True
    with Cons.prems show ?thesis
      by (auto simp: Let_def route_less_def)
  next
    case False
    with Cons obtain r where "r \<in> set rs" "matchRoute r req"
      "m = r\<lparr>MatchedRequests := MatchedRequests r + 1, LastMatchTime := Timestamp req\<rparr>"
      "\<forall>r'\<in>set rs. matchRoute r' req \<longrightarrow> \<not> route_less r' r"
      by auto
    with False show ?thesis by auto
  qed
qed

lemma not_route_less_iff:
  "\<not> route_less r' r \<longleftrightarrow> Priority r' < Priority r \<or> (Priority r' = Priority r \<and> Name r \<le> Name r')"
  by (auto simp: route_less_def)

text \<open>
  Claim C1.  For every list of routes inserted into a new manager by \<open>AddRoute\<close> and
  every request, \<open>Match\<close> returns nil exactly when no stored route accepts the request,
  and otherwise returns a stored route that accepts it (with the match counted on it) such
  that every other stored route that accepts the request has a lower priority, or the same
  priority and a greater name.  The names of the stored routes are distinct.
\<close>

theorem C1_match_highest_priority:
  "(fst (Match (foldl AddRoute NewRouteManager rs) req) = None \<longleftrightarrow>
      (\<forall>r\<in>set (routes (foldl AddRoute NewRouteManager rs)). \<not> matchRoute r req))
   \<and> (\<forall>m. fst (Match (foldl AddRoute NewRouteManager rs) req) = Some m \<longrightarrow>
        (\<exists>r\<in>set (routes (foldl AddRoute NewRouteManager rs)).
           matchRoute r req
           \<and> m = r\<lparr>MatchedRequests := MatchedRequests r + 1, LastMatchTime := Timestamp req\<rparr>
           \<and> (\<forall>r'\<in>set (routes (foldl AddRoute NewRouteManager rs)).
                 matchRoute r' req \<longrightarrow>
                 Priority r' < Priority r \<or> (Priority r' = Priority r \<and> Name r \<le> Name r'))))
   \<and> distinct (map Name (routes (foldl AddRoute NewRouteManager rs)))"
proof (intro conjI allI impI)
  show "fst (Match (foldl AddRoute NewRouteManager rs) req) = None \<longleftrightarrow>
      (\<forall>r\<in>set (routes (foldl AddRoute NewRouteManager rs)). \<not> matchRoute r req)"
    by (simp add: Match_def Match_loop_None)
next
  fix m assume "fst (Match (foldl AddRoute NewRouteManager rs) req) = Some m"
  then have "fst (Match_loop (routes (foldl AddRoute NewRouteManager rs)) req) = Some m"
    by (simp add: Match_def)
  from Match_loop_Some [OF this routes_sorted]
  show "\<exists>r\<in>set (routes (foldl AddRoute NewRouteManager rs)).
           matchRoute r req
           \<and> m = r\<lparr>MatchedRequests := MatchedRequests r + 1, LastMatchTime := Timestamp req\<rparr>
           \<and> (\<forall>r'\<in>set (routes (foldl AddRoute NewRouteManager rs)).
                 matchRoute r' req \<longrightarrow>
                 Priority r' < Priority r \<or> (Priority r' = Priority r \<and> Name r \<le> Name r'))"
    unfolding not_route_less_iff .
next
  show "distinct (map Name (routes (foldl AddRoute NewRouteManager rs)))"
    by (rule routes_distinct)
qed

theorem C1_match_highest_priority_witness:
  "fst (Match (foldl AddRoute NewRouteManager
          [plain_route ''ns/b'' 100, plain_route ''ns/c'' 200, plain_route ''ns/a'' 200]) embed_request)
     = Some ((plain_route ''ns/a'' 200)\<lparr>MatchedRequests := 1, LastMatchTime := 0\<rparr>)"
  using C1_match_highest_priority [of "[plain_route ''ns/b'' 100, plain_route ''ns/c'' 200,
      plain_route ''ns/a'' 200]" embed_request]
  by (simp add: Match_def AddRoute_def NewRouteManager_def sort_Slice_def route_less_def
      plain_route_def embed_request_def matchRoute_def Let_def)

section \<open>Destination selection: properties\<close>









section \<open>Rate limiting: properties\<close>


















section \<open>Route updates: properties\<close>

lemma AddRoute_set:
  "set (routes (AddRoute rm route)) = insert route {r \<in> set (routes rm). Name r \<noteq> Name route}"
  by (auto simp: AddRoute_def set_sort_Slice)

lemma convertRateLimiting_limiter:
  "RateLimiter (convertRateLimiting now spec route) = Some rl \<Longrightarrow> RateLimiter route = None \<Longrightarrow>
   tokens rl = real_of_int (burstSize rl) \<and> lastUpdate rl = now \<and> modelLimits rl = []"
  by (auto simp: convertRateLimiting_def NewRateLimiter_def Let_def split: any.splits if_splits)

lemma match_blocks_limiter:
  "RateLimiter (matchOperations m route) = RateLimiter route"
  "RateLimiter (matchModels m route) = RateLimiter route"
  "RateLimiter (matchHeaders compile m route) = RateLimiter route"
  "RateLimiter (matchSource m route) = RateLimiter route"
  "RateLimiter (matchTimeWindow m route) = RateLimiter route"
  by (simp_all add: matchOperations_def matchModels_def matchHeaders_def matchSource_def
      matchTimeWindow_def split: any.splits)

lemma convertMatch_limiter: "RateLimiter (convertMatch compile spec route) = RateLimiter route"
  by (simp add: convertMatch_def Let_def match_blocks_limiter split: any.splits)

lemma convertDestinations_limiter: "RateLimiter (convertDestinations spec route) = RateLimiter route"
  by (simp add: convertDestinations_def split: any.splits)

lemma convertRoute_limiter:
  assumes "convertRoute compile now obj = Inr route" "RateLimiter route = Some rl"
  shows "tokens rl = real_of_int (burstSize rl) \<and> lastUpdate rl = now \<and> modelLimits rl = []"
proof -
  from assms(1) obtain spec r0 where
    route: "route = convertRateLimiting now spec (convertDestinations spec (convertMatch compile spec r0))"
    and r0: "RateLimiter r0 = None"
    by (auto simp: convertRoute_def Let_def split: object.splits any.splits)
  have "RateLimiter (convertDestinations spec (convertMatch compile spec r0)) = None"
    by (simp add: convertDestinations_limiter convertMatch_limiter r0)
  with assms(2) route show ?thesis using convertRateLimiting_limiter by blast
qed

text \<open>
  Claim C4, amended.  When a TermiteRoute resource is updated and converts to a route,
  the manager afterwards holds exactly that newly converted route under its name.  Its
  rate limiter, if the resource configures one, is new: the token count is the full burst,
  the last refill is the time of the conversion and there are no per-model buckets,
  whatever the bucket of the replaced route held and whether or not the rate or the burst
  changed.
\<close>

theorem C4_update_installs_fresh_bucket:
  assumes "convertRoute compile now newObj = Inr route"
  shows "route \<in> set (routes (onRouteUpdate compile now rm oldObj newObj))
     \<and> (\<forall>r\<in>set (routes (onRouteUpdate compile now rm oldObj newObj)).
           Name r = Name route \<longrightarrow> r = route)
     \<and> (\<forall>rl. RateLimiter route = Some rl \<longrightarrow>
           tokens rl = real_of_int (burstSize rl) \<and> lastUpdate rl = now \<and> modelLimits rl = [])"
proof -
  have upd: "onRouteUpdate compile now rm oldObj newObj = AddRoute rm route"
    using assms by (simp add: onRouteUpdate_def)
  show ?thesis
    unfolding upd AddRoute_set using convertRoute_limiter [OF assms] by auto
qed


lemmas watcher_eval = convertRoute_def convertMatch_def convertDestinations_def
  convertRateLimiting_def index_def getInt32_def MaxInt32_def MinInt32_def limited_object_def
  limited_route_def Let_def

lemma convert_limited: "convertRoute compile now limited_object = Inr (limited_route now)"
  by (simp add: watcher_eval)

lemma AddRoute_replace_single:
  "Name r = Name route \<Longrightarrow> routes (AddRoute \<lparr>routes = [r]\<rparr> route) = [route]"
  by (simp add: AddRoute_def sort_Slice_def)

lemma limited_route_Name: "Name (limited_route now) = ''ns/r''"
  by (simp add: limited_route_def)

theorem C4_update_installs_fresh_bucket_witness:
  "convertRoute regexp_Compile 5000000000 limited_object = Inr (limited_route 5000000000)
   \<and> routes (onRouteUpdate regexp_Compile 5000000000 \<lparr>routes = [limited_route 0]\<rparr>
         limited_object limited_object) = [limited_route 5000000000]"
  using C4_update_installs_fresh_bucket [of regexp_Compile 5000000000 limited_object
      "limited_route 5000000000" "\<lparr>routes = [limited_route 0]\<rparr>" limited_object]
  by (simp add: convert_limited onRouteUpdate_def AddRoute_replace_single limited_route_Name)

text \<open>
  Claim C4 as stated fails: a route with burst 2 has served one request, so its bucket
  holds one token last refilled at time 0; an update with the same resource five seconds
  later leaves a bucket with two tokens, last refilled at the time of the update.
\<close>

theorem C4_bucket_reset_counterexample:
  "fst (Allow (NewRateLimiter 0 1 2 False) 0 ''m'')
   \<and> tokens (snd (Allow (NewRateLimiter 0 1 2 False) 0 ''m'')) = 1
   \<and> lastUpdate (snd (Allow (NewRateLimiter 0 1 2 False) 0 ''m'')) = 0
   \<and> routes (onRouteUpdate regexp_Compile 5000000000
        \<lparr>routes = [(limited_route 0)\<lparr>RateLimiter :=
            Some (snd (Allow (NewRateLimiter 0 1 2 False) 0 ''m''))\<rparr>]\<rparr>
        limited_object limited_object)
      = [limited_route 5000000000]
   \<and> RateLimiter (limited_route 5000000000) = Some (NewRateLimiter 5000000000 1 2 False)
   \<and> tokens (NewRateLimiter 5000000000 1 2 False) = 2
   \<and> lastUpdate (NewRateLimiter 5000000000 1 2 False) = 5000000000"
proof -
  have "fst (Allow (NewRateLimiter 0 1 2 False) 0 ''m'')"
    "tokens (snd (Allow (NewRateLimiter 0 1 2 False) 0 ''m'')) = 1"
    "lastUpdate (snd (Allow (NewRateLimiter 0 1 2 False) 0 ''m'')) = 0"
    by (simp_all add: Allow_def NewRateLimiter_def refill_take_def Sub_def Seconds_def Let_def)
  moreover have "routes (onRouteUpdate regexp_Compile 5000000000
        \<lparr>routes = [(limited_route 0)\<lparr>RateLimiter :=
            Some (snd (Allow (NewRateLimiter 0 1 2 False) 0 ''m''))\<rparr>]\<rparr>
        limited_object limited_object)
      = [limited_route 5000000000]"
    by (simp add: convert_limited onRouteUpdate_def AddRoute_replace_single limited_route_Name)
  moreover have "RateLimiter (limited_route 5000000000) = Some (NewRateLimiter 5000000000 1 2 False)"
    by (simp add: limited_route_def)
  moreover have "tokens (NewRateLimiter 5000000000 1 2 False) = 2"
    "lastUpdate (NewRateLimiter 5000000000 1 2 False) = 5000000000"
    by (simp_all add: NewRateLimiter_def)
  ultimately show ?thesis by blast
qed

end
